theory Spec2Isabelle
  imports Main
begin

section \<open>The SSH connector of sshm (package ssh), as a shallow embedding\<close>

text \<open>
  The connector talks to the operating system and to golang.org/x/crypto/ssh. None of
  that code belongs to the repository, so every such call is a parameter of the model:
  the record \<open>world\<close> below holds one function per external call, named after the Go
  function it stands for. The functions of the repository are translated one by one and
  take the world as their first argument.
\<close>

subsection \<open>Go values\<close>

text \<open>
  A Go \<open>error\<close>. \<open>ErrString m\<close> is \<open>fmt.Errorf(m)\<close> with no verb, \<open>ErrWrap p e\<close> is
  \<open>fmt.Errorf(p + "%w", e)\<close> (the wrapped error may be nil, as in addSSHAgentAuth),
  \<open>ExtError\<close> is an error value made by a library call, and \<open>ExitError n\<close> is
  \<open>*ssh.ExitError\<close> with exit status \<open>n\<close>.
\<close>

datatype error =
    ErrString string
  | ErrWrap string "error option"
  | ExtError string
  | ExitError int

type_synonym bytes = string
type_synonym Signer = string
type_synonym PublicKey = string
type_synonym Conn = nat
type_synonym Client = nat
type_synonym Session = nat

text \<open>\<open>ssh.AuthMethod\<close>: the connector only ever builds \<open>ssh.PublicKeys(signers...)\<close>.\<close>

datatype ssh_AuthMethod = PublicKeys "Signer list"

text \<open>\<open>ssh.HostKeyCallback\<close>: hostname, remote address and presented key to an error or nil.\<close>

type_synonym HostKeyCallback = "string \<Rightarrow> string \<Rightarrow> PublicKey \<Rightarrow> error option"

text \<open>
  \<open>ssh.InsecureIgnoreHostKey()\<close> of x/crypto/ssh: the callback that returns nil for
  every key.
\<close>

definition InsecureIgnoreHostKey :: HostKeyCallback where
  "InsecureIgnoreHostKey = (\<lambda>hostname remote key. None)"

text \<open>\<open>ssh.ClientConfig\<close>, the three fields the connector sets.\<close>

record ClientConfig =
  cfg_User :: string
  cfg_Auth :: "ssh_AuthMethod list"
  cfg_HostKeyCallback :: HostKeyCallback

text \<open>\<open>models.Host\<close>.\<close>

record Host =
  ID :: string
  Name :: string
  Host :: string
  Port :: int
  User :: string
  Identity :: string
  Proxy :: string
  Tags :: "string list"

text \<open>
  \<open>type AuthMethod int\<close> with its four \<open>iota\<close> constants. A Go value of this type can
  be any int, so the model keeps it an int.
\<close>

type_synonym AuthMethod = int

definition AuthMethodNone :: AuthMethod where "AuthMethodNone = 0"
definition AuthMethodPassword :: AuthMethod where "AuthMethodPassword = 1"
definition AuthMethodKeyFile :: AuthMethod where "AuthMethodKeyFile = 2"
definition AuthMethodSSHAgent :: AuthMethod where "AuthMethodSSHAgent = 3"

text \<open>\<open>type Connector struct { client *ssh.Client; config *ssh.ClientConfig }\<close>; the
  fields are written \<open>c_client\<close> and \<open>c_config\<close> (as in \<open>c.client\<close>), since the functions
  below have local variables called \<open>client\<close> and \<open>config\<close>.\<close>

record Connector =
  c_client :: "Client option"
  c_config :: "ClientConfig option"

subsection \<open>The world: every call that leaves the repository\<close>

record world =
  Getenv :: "string \<Rightarrow> string"
  user_Current_HomeDir :: "error + string"
  filepath_Join :: "string \<Rightarrow> string \<Rightarrow> string"
  ReadFile :: "string \<Rightarrow> error + bytes"
  ParsePrivateKey :: "bytes \<Rightarrow> error + Signer"
  net_Dial :: "string \<Rightarrow> string \<Rightarrow> error + Conn"
  net_DialTimeout :: "string \<Rightarrow> string \<Rightarrow> nat \<Rightarrow> error + Conn"
  agent_Signers :: "Conn \<Rightarrow> Signer list \<times> error option"
  ssh_Dial :: "string \<Rightarrow> string \<Rightarrow> ClientConfig option \<Rightarrow> error + Client"
  NewSession :: "Client option \<Rightarrow> error + Session"
  RequestPty :: "Session \<Rightarrow> string \<Rightarrow> int \<Rightarrow> int \<Rightarrow> (nat \<times> nat) list \<Rightarrow> error option"
  Shell :: "Session \<Rightarrow> error option"
  Wait :: "Session \<Rightarrow> error option"
  Atoi :: "string \<Rightarrow> int \<times> error option"

subsection \<open>expandPath\<close>

text \<open>
  \<open>len(path) > 1 && path[:2] == "~/"\<close>: Go strings are byte strings, as \<open>string\<close> is.
  \<open>user.Current()\<close> is read through its only use, \<open>usr.HomeDir\<close>.
\<close>

definition expandPath :: "world \<Rightarrow> string \<Rightarrow> string \<times> error option" where
  "expandPath w path =
     (if length path > 1 \<and> take 2 path = ''~/'' then
        (case user_Current_HomeDir w of
           Inl err \<Rightarrow> ('''', Some err)
         | Inr homeDir \<Rightarrow> (filepath_Join w homeDir (drop 2 path), None))
      else (path, None))"

subsection \<open>The three credential sources\<close>

text \<open>
  Each \<open>add...Auth\<close> mutates \<open>config.Auth\<close> through the pointer and returns an error;
  the model returns the configuration after the call together with the error.
\<close>

definition addSSHAgentAuth :: "world \<Rightarrow> ClientConfig \<Rightarrow> ClientConfig \<times> error option" where
  "addSSHAgentAuth w config =
     (let socket = Getenv w ''SSH_AUTH_SOCK'' in
      if socket = '''' then (config, Some (ErrString ''SSH_AUTH_SOCK not set''))
      else
        (case net_Dial w ''unix'' socket of
           Inl err \<Rightarrow> (config, Some (ErrWrap ''failed to connect to SSH agent: '' (Some err)))
         | Inr conn \<Rightarrow>
             (case agent_Signers w conn of
                (signers, err) \<Rightarrow>
                  if err \<noteq> None \<or> length signers = 0
                  then (config, Some (ErrWrap ''no keys available from SSH agent: '' err))
                  else (config\<lparr>cfg_Auth := cfg_Auth config @ [PublicKeys signers]\<rparr>, None))))"

definition addKeyFileAuth :: "world \<Rightarrow> ClientConfig \<Rightarrow> string \<Rightarrow> ClientConfig \<times> error option" where
  "addKeyFileAuth w config keyPath =
     (case expandPath w keyPath of
        (expandedPath, Some err) \<Rightarrow>
          (config, Some (ErrWrap ''failed to expand identity path: '' (Some err)))
      | (expandedPath, None) \<Rightarrow>
          (case ReadFile w expandedPath of
             Inl err \<Rightarrow> (config, Some (ErrWrap ''failed to read identity file: '' (Some err)))
           | Inr key \<Rightarrow>
               (case ParsePrivateKey w key of
                  Inl err \<Rightarrow> (config, Some (ErrWrap ''failed to parse private key: '' (Some err)))
                | Inr signer \<Rightarrow>
                    (config\<lparr>cfg_Auth := cfg_Auth config @ [PublicKeys [signer]]\<rparr>, None))))"

definition defaultKeys :: "string list" where
  "defaultKeys = [''~/.ssh/id_ed25519'', ''~/.ssh/id_rsa'', ''~/.ssh/id_ecdsa'', ''~/.ssh/id_dsa'']"

text \<open>The \<open>for _, keyPath := range defaultKeys\<close> loop; each \<open>continue\<close> is a recursive call
  on the rest of the list with the configuration untouched.\<close>

fun defaultKeysLoop :: "world \<Rightarrow> string list \<Rightarrow> ClientConfig \<Rightarrow> ClientConfig" where
  "defaultKeysLoop w [] config = config"
| "defaultKeysLoop w (keyPath # rest) config =
     (case expandPath w keyPath of
        (expandedPath, Some err) \<Rightarrow> defaultKeysLoop w rest config
      | (expandedPath, None) \<Rightarrow>
          (case ReadFile w expandedPath of
             Inl err \<Rightarrow> defaultKeysLoop w rest config
           | Inr key \<Rightarrow>
               (case ParsePrivateKey w key of
                  Inl err \<Rightarrow> defaultKeysLoop w rest config
                | Inr signer \<Rightarrow>
                    defaultKeysLoop w rest
                      (config\<lparr>cfg_Auth := cfg_Auth config @ [PublicKeys [signer]]\<rparr>))))"

definition addDefaultKeysAuth :: "world \<Rightarrow> ClientConfig \<Rightarrow> ClientConfig \<times> error option" where
  "addDefaultKeysAuth w config =
     (let config' = defaultKeysLoop w defaultKeys config in
      if length (cfg_Auth config') = 0
      then (config', Some (ErrString ''no authentication method available''))
      else (config', None))"

subsection \<open>Building the client configuration\<close>

text \<open>
  \<open>buildClientConfigWithAuth\<close> returns \<open>(*ssh.ClientConfig, error)\<close>; the pair is kept as
  it is, because the password case returns a configuration and an error together. The
  \<open>switch\<close> has no default case: any other value of \<open>auth\<close> adds nothing and reaches
  the length check.
\<close>

definition buildClientConfigWithAuth ::
  "world \<Rightarrow> Host \<Rightarrow> AuthMethod \<Rightarrow> ClientConfig option \<times> error option" where
  "buildClientConfigWithAuth w host auth =
     (let config = \<lparr>cfg_User = User host, cfg_Auth = [],
                     cfg_HostKeyCallback = InsecureIgnoreHostKey\<rparr> in
      if auth = AuthMethodPassword
      then (Some config, Some (ErrString ''password authentication not implemented''))
      else
        (case (if auth = AuthMethodSSHAgent then addSSHAgentAuth w config
               else if auth = AuthMethodKeyFile \<or> auth = AuthMethodNone then
                 (if Identity host \<noteq> '''' then addKeyFileAuth w config (Identity host)
                  else addDefaultKeysAuth w config)
               else (config, None)) of
           (config', Some err) \<Rightarrow> (None, Some err)
         | (config', None) \<Rightarrow>
             if length (cfg_Auth config') = 0
             then (None, Some (ErrString ''no authentication method available''))
             else (Some config', None)))"

text \<open>
  The loop of \<open>buildClientConfig\<close> over \<open>methods\<close>. Go evaluates
  \<open>err == nil && len(config.Auth) > 0\<close>; \<open>buildClientConfigWithAuth\<close> never returns
  \<open>(nil, nil)\<close> (lemma \<open>buildClientConfigWithAuth_not_nil_nil\<close>), so the dereference
  of a nil configuration that the last case stands for does not happen.
\<close>

fun buildClientConfig_methods ::
  "world \<Rightarrow> Host \<Rightarrow> AuthMethod list \<Rightarrow> ClientConfig option \<times> error option" where
  "buildClientConfig_methods w host [] =
     (None, Some (ErrString ''no authentication method available''))"
| "buildClientConfig_methods w host (method # rest) =
     (case buildClientConfigWithAuth w host method of
        (config, Some err) \<Rightarrow> buildClientConfig_methods w host rest
      | (Some config, None) \<Rightarrow>
          if length (cfg_Auth config) > 0 then (Some config, None)
          else buildClientConfig_methods w host rest
      | (None, None) \<Rightarrow> buildClientConfig_methods w host rest)"

definition buildClientConfig :: "world \<Rightarrow> Host \<Rightarrow> ClientConfig option \<times> error option" where
  "buildClientConfig w host =
     buildClientConfig_methods w host [AuthMethodSSHAgent, AuthMethodKeyFile]"

text \<open>
  The older connector file of the repository has a \<open>buildClientConfig\<close> of its own, with
  no agent: the identity file when one is set (a failure there is returned), the default
  keys otherwise. Its identity branch and its loop are, statement for statement, the
  bodies of \<open>addKeyFileAuth\<close> and of the loop of \<open>addDefaultKeysAuth\<close>.
\<close>

definition buildClientConfig_v1 :: "world \<Rightarrow> Host \<Rightarrow> ClientConfig option \<times> error option" where
  "buildClientConfig_v1 w host =
     (let config = \<lparr>cfg_User = User host, cfg_Auth = [],
                     cfg_HostKeyCallback = InsecureIgnoreHostKey\<rparr> in
      case (if Identity host \<noteq> '''' then addKeyFileAuth w config (Identity host)
            else (defaultKeysLoop w defaultKeys config, None)) of
        (config', Some err) \<Rightarrow> (None, Some err)
      | (config', None) \<Rightarrow>
          if length (cfg_Auth config') = 0
          then (None, Some (ErrString ''no authentication method available''))
          else (Some config', None))"

subsection \<open>The dial address\<close>

text \<open>\<open>fmt.Sprintf("%s:%d", host, port)\<close>: the host, a colon, the port in decimal.\<close>

fun decimal :: "nat \<Rightarrow> string" where
  "decimal n =
     (if n < 10 then [''0123456789'' ! n]
      else decimal (n div 10) @ [''0123456789'' ! (n mod 10)])"

declare decimal.simps [simp del]

definition Sprintf_d :: "int \<Rightarrow> string" where
  "Sprintf_d i = (if i < 0 then ''-'' @ decimal (nat (- i)) else decimal (nat i))"

definition Sprintf_addr :: "string \<Rightarrow> int \<Rightarrow> string" where
  "Sprintf_addr h p = h @ '':'' @ Sprintf_d p"

subsection \<open>Connect, ConnectWithAuth and the connector's state\<close>

definition NewConnector :: Connector where
  "NewConnector = \<lparr>c_client = None, c_config = None\<rparr>"

definition Connect :: "world \<Rightarrow> Connector \<Rightarrow> Host \<Rightarrow> Connector \<times> error option" where
  "Connect w c host =
     (case buildClientConfig w host of
        (config, Some err) \<Rightarrow> (c, Some (ErrWrap ''failed to build client config: '' (Some err)))
      | (config, None) \<Rightarrow>
          (let addr = Sprintf_addr (Host host) (Port host) in
           case ssh_Dial w ''tcp'' addr config of
             Inl err \<Rightarrow> (c, Some (ErrWrap (''failed to connect to '' @ addr @ '': '') (Some err)))
           | Inr client \<Rightarrow> (c\<lparr>c_client := Some client, c_config := config\<rparr>, None)))"

definition ConnectWithAuth ::
  "world \<Rightarrow> Connector \<Rightarrow> Host \<Rightarrow> AuthMethod \<Rightarrow> Connector \<times> error option" where
  "ConnectWithAuth w c host auth =
     (case buildClientConfigWithAuth w host auth of
        (config, Some err) \<Rightarrow> (c, Some (ErrWrap ''failed to build client config: '' (Some err)))
      | (config, None) \<Rightarrow>
          (let addr = Sprintf_addr (Host host) (Port host) in
           case ssh_Dial w ''tcp'' addr config of
             Inl err \<Rightarrow> (c, Some (ErrWrap (''failed to connect to '' @ addr @ '': '') (Some err)))
           | Inr client \<Rightarrow> (c\<lparr>c_client := Some client, c_config := config\<rparr>, None)))"

definition IsConnected :: "Connector \<Rightarrow> bool" where
  "IsConnected c = (c_client c \<noteq> None)"

definition GetClient :: "Connector \<Rightarrow> Client option" where
  "GetClient c = c_client c"

subsection \<open>The probes\<close>

definition CheckConnection :: "world \<Rightarrow> Host \<Rightarrow> error option" where
  "CheckConnection w host =
     (let addr = Sprintf_addr (Host host) (Port host) in
      case net_Dial w ''tcp'' addr of
        Inl err \<Rightarrow> Some (ErrWrap (''cannot reach '' @ addr @ '': '') (Some err))
      | Inr conn \<Rightarrow> None)"

text \<open>\<open>net.DialTimeout("tcp", addr, 5e9)\<close>: the timeout is in nanoseconds.\<close>

definition Ping :: "world \<Rightarrow> string \<Rightarrow> int \<Rightarrow> error option" where
  "Ping w host port =
     (let addr = Sprintf_addr host port in
      case net_DialTimeout w ''tcp'' addr 5000000000 of
        Inl err \<Rightarrow> Some err
      | Inr conn \<Rightarrow> None)"

subsection \<open>The terminal size\<close>

definition getTerminalSizeImpl :: "world \<Rightarrow> int \<times> int \<times> error option" where
  "getTerminalSizeImpl w =
     (let wd = Getenv w ''COLUMNS'' in
      if wd \<noteq> '''' then
        (let h = Getenv w ''LINES'' in
         if h \<noteq> '''' then
           (case (Atoi w wd, Atoi w h) of
              ((width, err1), (height, err2)) \<Rightarrow>
                if err1 = None \<and> err2 = None then (width, height, None)
                else (80, 24, None))
         else (80, 24, None))
      else (80, 24, None))"

definition getTerminalSize :: "world \<Rightarrow> int \<times> int" where
  "getTerminalSize w =
     (case getTerminalSizeImpl w of
        (width, height, Some err) \<Rightarrow> (80, 24)
      | (width, height, None) \<Rightarrow> (width, height))"

subsection \<open>The interactive session\<close>

text \<open>
  \<open>ssh.TerminalModes{ssh.ECHO: 1, ssh.TTY_OP_ISPEED: 14400, ssh.TTY_OP_OSPEED: 14400}\<close>,
  with the opcodes of x/crypto/ssh (53, 128, 129).
\<close>

definition modes :: "(nat \<times> nat) list" where
  "modes = [(53, 1), (128, 14400), (129, 14400)]"

text \<open>
  \<open>ConnectAndInteract\<close> returns an \<open>error\<close> and nothing else. The two deferred
  \<open>Close\<close> calls run on every path and their results are dropped; they do not change
  what is returned. \<open>session.Wait()\<close> of x/crypto/ssh returns nil when the remote command
  exits with status zero and an \<open>*ssh.ExitError\<close> when it exits with another status.
\<close>

definition ConnectAndInteract :: "world \<Rightarrow> Host \<Rightarrow> error option" where
  "ConnectAndInteract w host =
     (case Connect w NewConnector host of
        (connector, Some err) \<Rightarrow> Some err
      | (connector, None) \<Rightarrow>
          (case NewSession w (c_client connector) of
             Inl err \<Rightarrow> Some (ErrWrap ''failed to create session: '' (Some err))
           | Inr session \<Rightarrow>
               (case getTerminalSize w of
                  (width, height) \<Rightarrow>
                    (case RequestPty w session ''xterm'' height width modes of
                       Some err \<Rightarrow>
                         Some (ErrWrap ''request for pseudo terminal failed: '' (Some err))
                     | None \<Rightarrow>
                         (case Shell w session of
                            Some err \<Rightarrow> Some (ErrWrap ''failed to start shell: '' (Some err))
                          | None \<Rightarrow> Wait w session)))))"

section \<open>What each credential source yields\<close>

text \<open>
  The vocabulary of the properties, stated on the world alone. A key path yields a signer
  when it expands, its file reads and the contents parse as a private key. The agent
  yields the signers it lists when \<open>SSH_AUTH_SOCK\<close> is set, the socket accepts the
  connection and the listing returns no error.
\<close>

definition key_signer :: "world \<Rightarrow> string \<Rightarrow> Signer option" where
  "key_signer w keyPath =
     (case expandPath w keyPath of
        (expandedPath, Some err) \<Rightarrow> None
      | (expandedPath, None) \<Rightarrow>
          (case ReadFile w expandedPath of
             Inl err \<Rightarrow> None
           | Inr key \<Rightarrow>
               (case ParsePrivateKey w key of Inl err \<Rightarrow> None | Inr signer \<Rightarrow> Some signer)))"

definition agent_keys :: "world \<Rightarrow> Signer list" where
  "agent_keys w =
     (if Getenv w ''SSH_AUTH_SOCK'' = '''' then []
      else
        (case net_Dial w ''unix'' (Getenv w ''SSH_AUTH_SOCK'') of
           Inl err \<Rightarrow> []
         | Inr conn \<Rightarrow>
             (case agent_Signers w conn of
                (signers, Some err) \<Rightarrow> []
              | (signers, None) \<Rightarrow> signers)))"

definition key_file_signers :: "world \<Rightarrow> Host \<Rightarrow> Signer list" where
  "key_file_signers w host =
     (if Identity host \<noteq> '''' then
        (case key_signer w (Identity host) of None \<Rightarrow> [] | Some s \<Rightarrow> [s])
      else List.map_filter (key_signer w) defaultKeys)"

definition base_config :: "Host \<Rightarrow> ssh_AuthMethod list \<Rightarrow> ClientConfig" where
  "base_config host ms =
     \<lparr>cfg_User = User host, cfg_Auth = ms, cfg_HostKeyCallback = InsecureIgnoreHostKey\<rparr>"

definition exhausted :: error where
  "exhausted = ErrString ''no authentication method available''"

section \<open>Concrete worlds\<close>

text \<open>
  \<open>bare_world\<close>: no agent socket, no key file, every dial refused, no terminal hints.
  The home directory is \<open>/home/admin\<close> and paths are joined with a slash.
\<close>

definition bare_world :: world where
  "bare_world =
     \<lparr>Getenv = (\<lambda>k. ''''),
      user_Current_HomeDir = Inr ''/home/admin'',
      filepath_Join = (\<lambda>a b. a @ ''/'' @ b),
      ReadFile = (\<lambda>p. Inl (ExtError ''no such file or directory'')),
      ParsePrivateKey = (\<lambda>k. Inl (ExtError ''ssh: no key found'')),
      net_Dial = (\<lambda>n a. Inl (ExtError ''connection refused'')),
      net_DialTimeout = (\<lambda>n a t. Inl (ExtError ''connection refused'')),
      agent_Signers = (\<lambda>c. ([], None)),
      ssh_Dial = (\<lambda>n a c. Inl (ExtError ''connection refused'')),
      NewSession = (\<lambda>c. Inl (ExtError ''no connection'')),
      RequestPty = (\<lambda>s t h w m. None),
      Shell = (\<lambda>s. None),
      Wait = (\<lambda>s. None),
      Atoi = (\<lambda>s. (0, Some (ExtError ''invalid syntax'')))\<rparr>"

text \<open>The host of the specification's end-to-end scenario.\<close>

definition admin_host :: Host where
  "admin_host =
     \<lparr>ID = ''1'', Name = ''production'', Host = ''203.0.113.5'', Port = 22, User = ''admin'',
      Identity = '''', Proxy = '''', Tags = []\<rparr>"

text \<open>\<open>agent_world\<close>: a running agent with one signer, nothing else.\<close>

definition agent_world :: world where
  "agent_world =
     bare_world
       \<lparr>Getenv := (\<lambda>k. if k = ''SSH_AUTH_SOCK'' then ''/tmp/agent.sock'' else ''''),
        net_Dial := (\<lambda>n a. if n = ''unix'' \<and> a = ''/tmp/agent.sock'' then Inr 1
                            else Inl (ExtError ''connection refused'')),
        agent_Signers := (\<lambda>c. ([''agent-key''], None))\<rparr>"

text \<open>
  \<open>keys_world\<close>: no agent. Of the four default keys, \<open>id_ed25519\<close> and \<open>id_dsa\<close> do not
  exist, \<open>id_rsa\<close> is corrupt, and \<open>id_ecdsa\<close> reads and parses.
\<close>

definition keys_world :: world where
  "keys_world =
     bare_world
       \<lparr>ReadFile := (\<lambda>p. if p = ''/home/admin/.ssh/id_rsa'' then Inr ''garbage''
                         else if p = ''/home/admin/.ssh/id_ecdsa'' then Inr ''ecdsa-pem''
                         else Inl (ExtError ''no such file or directory'')),
        ParsePrivateKey := (\<lambda>k. if k = ''ecdsa-pem'' then Inr ''ecdsa-signer''
                                else Inl (ExtError ''ssh: no key found''))\<rparr>"

text \<open>
  \<open>shell_world\<close>: the agent of \<open>agent_world\<close>, a server that accepts the connection, a
  terminal of 100 columns and 40 lines, a pseudo terminal granted only for
  \<open>("xterm", 40, 100, modes)\<close>, and a remote shell that ends with \<open>exit 7\<close>, for which
  \<open>session.Wait()\<close> returns an \<open>*ssh.ExitError\<close> of status 7.
\<close>

definition shell_world :: world where
  "shell_world =
     agent_world
       \<lparr>Getenv := (\<lambda>k. if k = ''SSH_AUTH_SOCK'' then ''/tmp/agent.sock''
                        else if k = ''COLUMNS'' then ''100''
                        else if k = ''LINES'' then ''40'' else ''''),
        ssh_Dial := (\<lambda>n a c. Inr 5),
        NewSession := (\<lambda>c. if c = Some 5 then Inr 9 else Inl (ExtError ''no connection'')),
        RequestPty := (\<lambda>s t h w m. if t = ''xterm'' \<and> h = 40 \<and> w = 100 \<and> m = modes then None
                                    else Some (ExtError ''pty request failed'')),
        Wait := (\<lambda>s. Some (ExitError 7)),
        Atoi := (\<lambda>s. if s = ''100'' then (100, None) else if s = ''40'' then (40, None)
                      else (0, Some (ExtError ''invalid syntax'')))\<rparr>"


definition sshd_world :: world where
  "sshd_world =
     agent_world
       \<lparr>net_Dial := (\<lambda>n a. if n = ''unix'' \<and> a = ''/tmp/agent.sock'' then Inr 1
                            else if n = ''tcp'' \<and> a = ''203.0.113.5:22'' then Inr 2
                            else Inl (ExtError ''connection refused'')),
        net_DialTimeout := (\<lambda>n a t. if n = ''tcp'' \<and> a = ''203.0.113.5:22'' then Inr 3
                            else Inl (ExtError ''connection refused'')),
        ssh_Dial := (\<lambda>n a c. if n = ''tcp'' \<and> a = ''203.0.113.5:22'' then Inr 5
                            else Inl (ExtError ''connection refused''))\<rparr>"

section \<open>What the builders return\<close>

lemma defaultKeysLoop_eq:
  "defaultKeysLoop w ks config =
     config\<lparr>cfg_Auth := cfg_Auth config @ map (\<lambda>s. PublicKeys [s]) (List.map_filter (key_signer w) ks)\<rparr>"
proof (induction ks arbitrary: config)
  case Nil
  show ?case by (simp add: List.map_filter_simps)
next
  case (Cons k ks)
  show ?case
    by (simp add: Cons.IH key_signer_def List.map_filter_simps split: prod.splits option.splits sum.splits)
qed

lemma addKeyFileAuth_Some:
  "key_signer w p = Some s \<Longrightarrow>
   addKeyFileAuth w config p = (config\<lparr>cfg_Auth := cfg_Auth config @ [PublicKeys [s]]\<rparr>, None)"
  by (auto simp: addKeyFileAuth_def key_signer_def split: prod.splits option.splits sum.splits)

lemma addKeyFileAuth_None:
  "key_signer w p = None \<Longrightarrow> \<exists>e. addKeyFileAuth w config p = (config, Some e)"
  by (auto simp: addKeyFileAuth_def key_signer_def split: prod.splits option.splits sum.splits)

lemma addSSHAgentAuth_keys:
  "agent_keys w \<noteq> [] \<Longrightarrow>
   addSSHAgentAuth w config = (config\<lparr>cfg_Auth := cfg_Auth config @ [PublicKeys (agent_keys w)]\<rparr>, None)"
  by (auto simp: addSSHAgentAuth_def agent_keys_def Let_def split: prod.splits option.splits sum.splits if_splits)

lemma addSSHAgentAuth_no_keys:
  "agent_keys w = [] \<Longrightarrow> \<exists>e. addSSHAgentAuth w config = (config, Some e)"
  by (auto simp: addSSHAgentAuth_def agent_keys_def Let_def split: prod.splits option.splits sum.splits if_splits)


lemma with_agent_keys:
  "agent_keys w \<noteq> [] \<Longrightarrow>
   buildClientConfigWithAuth w host AuthMethodSSHAgent =
     (Some (base_config host [PublicKeys (agent_keys w)]), None)"
  by (simp add: buildClientConfigWithAuth_def Let_def AuthMethodSSHAgent_def
      AuthMethodPassword_def base_config_def addSSHAgentAuth_keys)

lemma with_agent_no_keys:
  assumes "agent_keys w = []"
  shows "\<exists>e. buildClientConfigWithAuth w host AuthMethodSSHAgent = (None, Some e)"
proof -
  obtain x where "addSSHAgentAuth w (base_config host []) = (base_config host [], Some x)"
    using addSSHAgentAuth_no_keys [OF assms] by blast
  then show ?thesis
    by (simp add: buildClientConfigWithAuth_def Let_def AuthMethodSSHAgent_def
          AuthMethodPassword_def base_config_def)
qed

lemma with_key_file_signers:
  assumes "key_file_signers w host \<noteq> []"
  shows "buildClientConfigWithAuth w host AuthMethodKeyFile =
     (Some (base_config host (map (\<lambda>s. PublicKeys [s]) (key_file_signers w host))), None)"
proof (cases "Identity host = ''''")
  case True
  with assms show ?thesis
    by (simp add: buildClientConfigWithAuth_def Let_def AuthMethodSSHAgent_def
        AuthMethodPassword_def AuthMethodKeyFile_def base_config_def key_file_signers_def
        addDefaultKeysAuth_def defaultKeysLoop_eq)
next
  case False
  with assms obtain s where s: "key_signer w (Identity host) = Some s"
    by (auto simp: key_file_signers_def split: option.splits)
  from False s show ?thesis
    by (simp add: buildClientConfigWithAuth_def Let_def AuthMethodSSHAgent_def
        AuthMethodPassword_def AuthMethodKeyFile_def base_config_def key_file_signers_def
        addKeyFileAuth_Some)
qed

lemma with_key_file_no_signers:
  assumes "key_file_signers w host = []"
  shows "\<exists>e. buildClientConfigWithAuth w host AuthMethodKeyFile = (None, Some e)"
proof (cases "Identity host = ''''")
  case True
  with assms show ?thesis
    by (simp add: buildClientConfigWithAuth_def Let_def AuthMethodSSHAgent_def
        AuthMethodPassword_def AuthMethodKeyFile_def key_file_signers_def
        addDefaultKeysAuth_def defaultKeysLoop_eq)
next
  case False
  with assms have k: "key_signer w (Identity host) = None"
    by (simp add: key_file_signers_def split: option.splits)
  obtain x where "addKeyFileAuth w (base_config host []) (Identity host) = (base_config host [], Some x)"
    using addKeyFileAuth_None [OF k] by blast
  with False show ?thesis
    by (simp add: buildClientConfigWithAuth_def Let_def AuthMethodSSHAgent_def
        AuthMethodPassword_def AuthMethodKeyFile_def base_config_def)
qed

lemma buildClientConfig_result:
  "buildClientConfig w host =
     (if agent_keys w \<noteq> [] then (Some (base_config host [PublicKeys (agent_keys w)]), None)
      else if key_file_signers w host \<noteq> []
      then (Some (base_config host (map (\<lambda>s. PublicKeys [s]) (key_file_signers w host))), None)
      else (None, Some exhausted))"
proof (cases "agent_keys w = []")
  case False
  then show ?thesis
    by (simp add: buildClientConfig_def with_agent_keys base_config_def)
next
  case a: True
  obtain e where e: "buildClientConfigWithAuth w host AuthMethodSSHAgent = (None, Some e)"
    using with_agent_no_keys [OF a] by blast
  show ?thesis
  proof (cases "key_file_signers w host = []")
    case True
    obtain e' where "buildClientConfigWithAuth w host AuthMethodKeyFile = (None, Some e')"
      using with_key_file_no_signers [OF True] by blast
    with e a True show ?thesis by (simp add: buildClientConfig_def exhausted_def)
  next
    case False
    from with_key_file_signers [OF False] e a False show ?thesis
      by (simp add: buildClientConfig_def base_config_def)
  qed
qed

section \<open>The concrete worlds, evaluated\<close>

lemma bare_agent_keys: "agent_keys bare_world = []"
  by (simp add: agent_keys_def bare_world_def)

lemma agent_agent_keys: "agent_keys agent_world = [''agent-key'']"
  by (simp add: agent_keys_def agent_world_def bare_world_def)

lemma keys_agent_keys: "agent_keys keys_world = []"
  by (simp add: agent_keys_def keys_world_def bare_world_def)

lemma shell_agent_keys: "agent_keys shell_world = [''agent-key'']"
  by (simp add: agent_keys_def shell_world_def agent_world_def bare_world_def)

lemma bare_key_signer: "key_signer bare_world p = None"
  by (simp add: key_signer_def bare_world_def expandPath_def split: prod.splits option.splits)

lemma agent_key_signer: "key_signer agent_world p = None"
  by (simp add: key_signer_def agent_world_def bare_world_def expandPath_def split: prod.splits option.splits)

lemma keys_key_signer:
  "key_signer keys_world ''~/.ssh/id_ed25519'' = None"
  "key_signer keys_world ''~/.ssh/id_rsa'' = None"
  "key_signer keys_world ''~/.ssh/id_ecdsa'' = Some ''ecdsa-signer''"
  "key_signer keys_world ''~/.ssh/id_dsa'' = None"
  "key_signer keys_world ''/missing'' = None"
  by (simp_all add: key_signer_def keys_world_def bare_world_def expandPath_def)

lemma keys_default_signers: "List.map_filter (key_signer keys_world) defaultKeys = [''ecdsa-signer'']"
  by (simp add: defaultKeys_def keys_key_signer)

lemma bare_default_signers: "List.map_filter (key_signer bare_world) defaultKeys = []"
  by (simp add: defaultKeys_def bare_key_signer)

lemma map_filter_member:
  "x \<in> set xs \<Longrightarrow> f x = Some y \<Longrightarrow> y \<in> set (List.map_filter f xs)"
  by (induction xs) (auto split: option.splits)

section \<open>The default-key loop\<close>

text \<open>
  Claim C7. For every world and every starting configuration, \<open>addDefaultKeysAuth\<close>
  appends to \<open>config.Auth\<close> one \<open>PublicKeys\<close> entry for each default key path that
  expands, reads and parses, in the order of the list, whatever happened to the entries
  before it: a path that does not expand, a file that does not read or a key that does not
  parse is skipped and the loop goes on. In particular every entry of the list that
  yields a signer has that signer in the result. The only error is the one returned when
  the accumulated \<open>config.Auth\<close> is empty.
\<close>

theorem addDefaultKeysAuth_soft_fail:
  "addDefaultKeysAuth w config =
     (config\<lparr>cfg_Auth := cfg_Auth config @
        map (\<lambda>s. PublicKeys [s]) (List.map_filter (key_signer w) defaultKeys)\<rparr>,
      if cfg_Auth config = [] \<and> List.map_filter (key_signer w) defaultKeys = []
      then Some (ErrString ''no authentication method available'') else None)
   \<and> (\<forall>before keyPath after signer.
        defaultKeys = before @ keyPath # after \<and> key_signer w keyPath = Some signer \<longrightarrow>
        PublicKeys [signer] \<in> set (cfg_Auth (fst (addDefaultKeysAuth w config))))"
proof -
  have eq: "addDefaultKeysAuth w config =
     (config\<lparr>cfg_Auth := cfg_Auth config @
        map (\<lambda>s. PublicKeys [s]) (List.map_filter (key_signer w) defaultKeys)\<rparr>,
      if cfg_Auth config = [] \<and> List.map_filter (key_signer w) defaultKeys = []
      then Some (ErrString ''no authentication method available'') else None)"
    by (simp add: addDefaultKeysAuth_def Let_def defaultKeysLoop_eq)
  have mem: "PublicKeys [signer] \<in> set (cfg_Auth (fst (addDefaultKeysAuth w config)))"
    if "defaultKeys = before @ keyPath # after" "key_signer w keyPath = Some signer"
    for before keyPath after signer
  proof -
    have "keyPath \<in> set defaultKeys"
      using that(1) by (metis in_set_conv_decomp)
    then have "signer \<in> set (List.map_filter (key_signer w) defaultKeys)"
      using that(2) by (rule map_filter_member)
    then show ?thesis by (simp add: eq)
  qed
  from eq mem show ?thesis by blast
qed

theorem addDefaultKeysAuth_soft_fail_witness:
  "key_signer keys_world ''~/.ssh/id_ed25519'' = None
   \<and> key_signer keys_world ''~/.ssh/id_rsa'' = None
   \<and> defaultKeys = [''~/.ssh/id_ed25519'', ''~/.ssh/id_rsa''] @ ''~/.ssh/id_ecdsa'' # [''~/.ssh/id_dsa'']
   \<and> key_signer keys_world ''~/.ssh/id_ecdsa'' = Some ''ecdsa-signer''
   \<and> PublicKeys [''ecdsa-signer''] \<in> set (cfg_Auth (fst (addDefaultKeysAuth keys_world (base_config admin_host []))))
   \<and> snd (addDefaultKeysAuth keys_world (base_config admin_host [])) = None"
proof -
  have d: "defaultKeys = [''~/.ssh/id_ed25519'', ''~/.ssh/id_rsa''] @ ''~/.ssh/id_ecdsa'' # [''~/.ssh/id_dsa'']"
    by (simp add: defaultKeys_def)
  have k: "key_signer keys_world ''~/.ssh/id_ecdsa'' = Some ''ecdsa-signer''"
    by (rule keys_key_signer)
  from addDefaultKeysAuth_soft_fail [of keys_world "base_config admin_host []"] d k
  have "PublicKeys [''ecdsa-signer''] \<in> set (cfg_Auth (fst (addDefaultKeysAuth keys_world (base_config admin_host []))))"
    by blast
  moreover have "snd (addDefaultKeysAuth keys_world (base_config admin_host [])) = None"
    using addDefaultKeysAuth_soft_fail [of keys_world "base_config admin_host []"]
    by (simp add: keys_default_signers)
  ultimately show ?thesis using d k by (simp add: keys_key_signer)
qed

section \<open>The terminal size\<close>

text \<open>
  Claim C8. \<open>getTerminalSize\<close> never fails. It returns the values \<open>strconv.Atoi\<close> read
  from \<open>COLUMNS\<close> and \<open>LINES\<close>, unchanged, when both variables are non-empty and both
  parse; in every other case (a variable unset or empty, or one that does not parse) it
  returns 80 columns and 24 lines.
\<close>

theorem getTerminalSize_default:
  "getTerminalSize w =
     (if Getenv w ''COLUMNS'' \<noteq> '''' \<and> Getenv w ''LINES'' \<noteq> ''''
         \<and> snd (Atoi w (Getenv w ''COLUMNS'')) = None \<and> snd (Atoi w (Getenv w ''LINES'')) = None
      then (fst (Atoi w (Getenv w ''COLUMNS'')), fst (Atoi w (Getenv w ''LINES'')))
      else (80, 24))"
  by (auto simp: getTerminalSize_def getTerminalSizeImpl_def Let_def split: prod.splits option.splits)

theorem getTerminalSize_default_witness:
  "getTerminalSize shell_world = (100, 40) \<and> getTerminalSize bare_world = (80, 24)
   \<and> getTerminalSize (shell_world\<lparr>Getenv := (\<lambda>k. if k = ''COLUMNS'' then ''wide'' else ''40'')\<rparr>) = (80, 24)"
  using getTerminalSize_default [of shell_world] getTerminalSize_default [of bare_world]
    getTerminalSize_default [of "shell_world\<lparr>Getenv := (\<lambda>k. if k = ''COLUMNS'' then ''wide'' else ''40'')\<rparr>"]
  by (simp add: shell_world_def agent_world_def bare_world_def)

section \<open>A failed Connect leaves the connector as it was\<close>

text \<open>
  Claim C9. When \<open>Connect\<close> or \<open>ConnectWithAuth\<close> returns an error, from building the
  configuration or from the dial, the connector's \<open>client\<close> and \<open>config\<close> fields are the
  ones it had before the call; on a fresh connector \<open>IsConnected\<close> is still false.
\<close>

theorem Connect_failure_leaves_connector:
  "(snd (Connect w c host) \<noteq> None \<longrightarrow> fst (Connect w c host) = c)
   \<and> (snd (ConnectWithAuth w c host auth) \<noteq> None \<longrightarrow> fst (ConnectWithAuth w c host auth) = c)
   \<and> (snd (Connect w NewConnector host) \<noteq> None \<longrightarrow>
        \<not> IsConnected (fst (Connect w NewConnector host)))
   \<and> (snd (ConnectWithAuth w NewConnector host auth) \<noteq> None \<longrightarrow>
        \<not> IsConnected (fst (ConnectWithAuth w NewConnector host auth)))"
  by (auto simp: Connect_def ConnectWithAuth_def Let_def IsConnected_def NewConnector_def
      split: prod.splits option.splits sum.splits)

theorem Connect_failure_leaves_connector_witness:
  "snd (Connect agent_world NewConnector admin_host) \<noteq> None
   \<and> fst (Connect agent_world NewConnector admin_host) = NewConnector
   \<and> \<not> IsConnected (fst (Connect agent_world NewConnector admin_host))
   \<and> snd (ConnectWithAuth bare_world NewConnector admin_host AuthMethodKeyFile) \<noteq> None
   \<and> fst (ConnectWithAuth bare_world NewConnector admin_host AuthMethodKeyFile) = NewConnector"
proof -
  have a: "snd (Connect agent_world NewConnector admin_host) \<noteq> None"
    by (simp add: Connect_def buildClientConfig_result agent_agent_keys Let_def)
       (simp add: agent_world_def bare_world_def)
  have "key_file_signers bare_world admin_host = []"
    by (simp add: key_file_signers_def admin_host_def bare_default_signers)
  then obtain e where
    "buildClientConfigWithAuth bare_world admin_host AuthMethodKeyFile = (None, Some e)"
    using with_key_file_no_signers by blast
  then have b: "snd (ConnectWithAuth bare_world NewConnector admin_host AuthMethodKeyFile) \<noteq> None"
    by (simp add: ConnectWithAuth_def)
  from a b
    Connect_failure_leaves_connector [of agent_world NewConnector admin_host]
    Connect_failure_leaves_connector [of bare_world NewConnector admin_host AuthMethodKeyFile]
  show ?thesis by blast
qed

section \<open>expandPath\<close>

text \<open>
  Claim C10. \<open>expandPath\<close> touches a path only when it starts with \<open>~/\<close>: the rest of the
  path is then joined onto the home directory of the current user (and when the user
  lookup fails, that error is returned with the empty string). Every other path, the
  lone \<open>~\<close>, the empty string and any path starting with a slash among them, comes back
  unchanged with no error.
\<close>

theorem expandPath_tilde_slash_only:
  "expandPath w (''~/'' @ rest) =
     (case user_Current_HomeDir w of
        Inl err \<Rightarrow> ('''', Some err)
      | Inr homeDir \<Rightarrow> (filepath_Join w homeDir rest, None))
   \<and> ((\<nexists>rest. path = ''~/'' @ rest) \<longrightarrow> expandPath w path = (path, None))
   \<and> expandPath w ''~'' = (''~'', None)
   \<and> expandPath w '''' = ('''', None)
   \<and> expandPath w (CHR ''/'' # p) = (CHR ''/'' # p, None)"
proof -
  have "expandPath w path = (path, None)" if "\<nexists>rest. path = ''~/'' @ rest"
  proof -
    have "\<not> (length path > 1 \<and> take 2 path = ''~/'')"
    proof
      assume a: "length path > 1 \<and> take 2 path = ''~/''"
      then have "path = ''~/'' @ drop 2 path" by (metis append_take_drop_id)
      with that show False by blast
    qed
    then show ?thesis by (auto simp: expandPath_def)
  qed
  moreover have "expandPath w (''~/'' @ rest) =
     (case user_Current_HomeDir w of
        Inl err \<Rightarrow> ('''', Some err)
      | Inr homeDir \<Rightarrow> (filepath_Join w homeDir rest, None))"
    by (simp add: expandPath_def split: sum.splits)
  moreover have "expandPath w ''~'' = (''~'', None)" "expandPath w '''' = ('''', None)"
    "expandPath w (CHR ''/'' # p) = (CHR ''/'' # p, None)"
    by (simp_all add: expandPath_def)
  ultimately show ?thesis by blast
qed

theorem expandPath_tilde_slash_only_witness:
  "(\<nexists>rest. ''/etc/ssh/id_rsa'' = ''~/'' @ rest)
   \<and> expandPath bare_world ''/etc/ssh/id_rsa'' = (''/etc/ssh/id_rsa'', None)
   \<and> expandPath bare_world ''~/.ssh/id_rsa'' = (''/home/admin/.ssh/id_rsa'', None)"
proof -
  have n: "\<nexists>rest. ''/etc/ssh/id_rsa'' = ''~/'' @ rest" by simp
  have "expandPath bare_world (''~/'' @ ''.ssh/id_rsa'') = (''/home/admin/.ssh/id_rsa'', None)"
    using expandPath_tilde_slash_only [of bare_world "''.ssh/id_rsa''" "''/etc/ssh/id_rsa''"]
    by (simp add: bare_world_def)
  then show ?thesis
    using n expandPath_tilde_slash_only [of bare_world "''.ssh/id_rsa''" "''/etc/ssh/id_rsa''"]
    by simp
qed

section \<open>More of the concrete worlds, evaluated\<close>

lemma admin_addr: "Sprintf_addr (Host admin_host) (Port admin_host) = ''203.0.113.5:22''"
  by (simp add: Sprintf_addr_def Sprintf_d_def admin_host_def decimal.simps)

lemma admin_addr_zero:
  "Sprintf_addr (Host admin_host) 0 = ''203.0.113.5:0''"
  by (simp add: Sprintf_addr_def Sprintf_d_def admin_host_def decimal.simps)

lemma sshd_agent_keys: "agent_keys sshd_world = [''agent-key'']"
  by (simp add: agent_keys_def sshd_world_def agent_world_def bare_world_def)

lemma keys_file_signers:
  "key_file_signers keys_world admin_host = [''ecdsa-signer'']"
  "key_file_signers keys_world (admin_host\<lparr>Identity := ''/missing''\<rparr>) = []"
  "key_file_signers bare_world admin_host = []"
  "key_file_signers bare_world (admin_host\<lparr>Identity := ''/missing''\<rparr>) = []"
  "key_file_signers agent_world admin_host = []"
  by (simp_all add: key_file_signers_def admin_host_def keys_default_signers bare_default_signers
      keys_key_signer bare_key_signer agent_key_signer defaultKeys_def)

lemma shell_connect:
  "Connect shell_world NewConnector admin_host =
     (\<lparr>c_client = Some 5, c_config = Some (base_config admin_host [PublicKeys [''agent-key'']])\<rparr>, None)"
  by (simp add: Connect_def buildClientConfig_result shell_agent_keys Let_def)
     (simp add: shell_world_def agent_world_def bare_world_def NewConnector_def)

lemma shell_size: "getTerminalSize shell_world = (100, 40)"
  by (simp add: getTerminalSize_def getTerminalSizeImpl_def Let_def
      shell_world_def agent_world_def bare_world_def)

lemma shell_session:
  "NewSession shell_world (Some 5) = Inr 9"
  "RequestPty shell_world 9 ''xterm'' 40 100 modes = None"
  "Shell shell_world 9 = None"
  "Wait shell_world 9 = Some (ExitError 7)"
  by (simp_all add: shell_world_def agent_world_def bare_world_def)

section \<open>The host key callback\<close>

lemma addSSHAgentAuth_callback:
  "cfg_HostKeyCallback (fst (addSSHAgentAuth w config)) = cfg_HostKeyCallback config"
  by (simp add: addSSHAgentAuth_def Let_def split: prod.splits sum.splits)

lemma addKeyFileAuth_callback:
  "cfg_HostKeyCallback (fst (addKeyFileAuth w config p)) = cfg_HostKeyCallback config"
  by (simp add: addKeyFileAuth_def split: prod.splits sum.splits option.splits)

lemma addDefaultKeysAuth_callback:
  "cfg_HostKeyCallback (fst (addDefaultKeysAuth w config)) = cfg_HostKeyCallback config"
  by (simp add: addDefaultKeysAuth_def Let_def defaultKeysLoop_eq)

lemma buildClientConfigWithAuth_callback:
  assumes "fst (buildClientConfigWithAuth w host auth) = Some config"
  shows "cfg_HostKeyCallback config = InsecureIgnoreHostKey"
proof -
  let ?c0 = "\<lparr>cfg_User = User host, cfg_Auth = [], cfg_HostKeyCallback = InsecureIgnoreHostKey\<rparr>"
  have "cfg_HostKeyCallback (fst (addSSHAgentAuth w ?c0)) = InsecureIgnoreHostKey"
    "cfg_HostKeyCallback (fst (addKeyFileAuth w ?c0 (Identity host))) = InsecureIgnoreHostKey"
    "cfg_HostKeyCallback (fst (addDefaultKeysAuth w ?c0)) = InsecureIgnoreHostKey"
    by (simp_all add: addSSHAgentAuth_callback addKeyFileAuth_callback addDefaultKeysAuth_callback)
  with assms show ?thesis
    by (auto simp: buildClientConfigWithAuth_def Let_def split: if_splits prod.splits option.splits)
qed

lemma buildClientConfigWithAuth_not_nil_nil:
  "buildClientConfigWithAuth w host auth \<noteq> (None, None)"
  by (auto simp: buildClientConfigWithAuth_def Let_def split: if_splits prod.splits option.splits)

lemma buildClientConfig_methods_callback:
  "fst (buildClientConfig_methods w host ms) = Some config \<Longrightarrow>
   cfg_HostKeyCallback config = InsecureIgnoreHostKey"
proof (induction ms)
  case Nil
  then show ?case by simp
next
  case (Cons m ms)
  show ?case
  proof (cases "buildClientConfigWithAuth w host m")
    case (Pair cfg err)
    show ?thesis
    proof (cases "err = None \<and> cfg \<noteq> None \<and> length (cfg_Auth (the cfg)) > 0")
      case True
      then have "fst (buildClientConfigWithAuth w host m) = Some config"
        using Pair Cons.prems by auto
      then show ?thesis by (rule buildClientConfigWithAuth_callback)
    next
      case False
      then have "buildClientConfig_methods w host (m # ms) = buildClientConfig_methods w host ms"
        using Pair by (auto split: option.splits)
      with Cons show ?thesis by simp
    qed
  qed
qed

lemma buildClientConfig_v1_callback:
  assumes "fst (buildClientConfig_v1 w host) = Some config"
  shows "cfg_HostKeyCallback config = InsecureIgnoreHostKey"
proof -
  let ?c0 = "\<lparr>cfg_User = User host, cfg_Auth = [], cfg_HostKeyCallback = InsecureIgnoreHostKey\<rparr>"
  have "cfg_HostKeyCallback (fst (addKeyFileAuth w ?c0 (Identity host))) = InsecureIgnoreHostKey"
    by (simp add: addKeyFileAuth_callback)
  with assms show ?thesis
    by (auto simp: buildClientConfig_v1_def Let_def defaultKeysLoop_eq
        split: if_splits prod.splits option.splits)
qed

text \<open>
  Claim C1. Every configuration the connector builds, by \<open>buildClientConfigWithAuth\<close> for
  any host and any value of the auth method (the password case, which returns a
  configuration beside its error, included), by \<open>buildClientConfig\<close>, and by the
  \<open>buildClientConfig\<close> of the older connector file, carries
  \<open>ssh.InsecureIgnoreHostKey()\<close> as its host key callback: the callback answers nil for
  every host name, remote address and presented key, so no host key is ever rejected.
\<close>

theorem host_key_always_accepted:
  assumes "fst (buildClientConfigWithAuth w host auth) = Some config
           \<or> fst (buildClientConfig w host) = Some config
           \<or> fst (buildClientConfig_v1 w host) = Some config"
  shows "cfg_HostKeyCallback config = InsecureIgnoreHostKey
         \<and> cfg_HostKeyCallback config hostname remote key = None"
proof -
  have "cfg_HostKeyCallback config = InsecureIgnoreHostKey"
    using assms buildClientConfigWithAuth_callback buildClientConfig_methods_callback
      buildClientConfig_v1_callback
    unfolding buildClientConfig_def by blast
  then show ?thesis by (simp add: InsecureIgnoreHostKey_def)
qed

theorem host_key_always_accepted_witness:
  "fst (buildClientConfigWithAuth agent_world admin_host AuthMethodSSHAgent) =
     Some (base_config admin_host [PublicKeys [''agent-key'']])
   \<and> fst (buildClientConfig agent_world admin_host) =
     Some (base_config admin_host [PublicKeys [''agent-key'']])
   \<and> cfg_HostKeyCallback (base_config admin_host [PublicKeys [''agent-key'']])
        ''203.0.113.5'' ''203.0.113.5:22'' ''any key at all'' = None
   \<and> fst (buildClientConfig_v1 keys_world admin_host) =
     Some (base_config admin_host [PublicKeys [''ecdsa-signer'']])
   \<and> cfg_HostKeyCallback (base_config admin_host [PublicKeys [''ecdsa-signer'']])
        ''203.0.113.5'' ''203.0.113.5:22'' ''any key at all'' = None"
proof -
  have a: "fst (buildClientConfigWithAuth agent_world admin_host AuthMethodSSHAgent) =
     Some (base_config admin_host [PublicKeys [''agent-key'']])"
    by (simp add: with_agent_keys agent_agent_keys)
  have b: "fst (buildClientConfig agent_world admin_host) =
     Some (base_config admin_host [PublicKeys [''agent-key'']])"
    by (simp add: buildClientConfig_result agent_agent_keys)
  have c: "fst (buildClientConfig_v1 keys_world admin_host) =
     Some (base_config admin_host [PublicKeys [''ecdsa-signer'']])"
    by (simp add: buildClientConfig_v1_def Let_def defaultKeysLoop_eq keys_default_signers
        admin_host_def base_config_def)
  from a b c
    host_key_always_accepted [of agent_world admin_host AuthMethodSSHAgent
      "base_config admin_host [PublicKeys [''agent-key'']]" "''203.0.113.5''" "''203.0.113.5:22''"
      "''any key at all''"]
    host_key_always_accepted [of keys_world admin_host AuthMethodSSHAgent
      "base_config admin_host [PublicKeys [''ecdsa-signer'']]" "''203.0.113.5''" "''203.0.113.5:22''"
      "''any key at all''"]
  show ?thesis by blast
qed

section \<open>When authentication is exhausted\<close>

text \<open>
  What the code does. \<open>buildClientConfig\<close> tries two methods, the agent and the key
  file, and the key-file method loads the identity file when the host names one and the
  default keys only when it names none. So it fails exactly when the agent yields no
  signer and that one key source yields none.
\<close>

lemma buildClientConfig_fails_iff:
  "(snd (buildClientConfig w host) \<noteq> None) =
     (agent_keys w = [] \<and>
      (if Identity host \<noteq> '''' then key_signer w (Identity host) = None
       else (\<forall>keyPath \<in> set defaultKeys. key_signer w keyPath = None)))"
proof -
  have k: "(key_file_signers w host = []) =
     (if Identity host \<noteq> '''' then key_signer w (Identity host) = None
       else (\<forall>keyPath \<in> set defaultKeys. key_signer w keyPath = None))"
    by (auto simp: key_file_signers_def List.map_filter_def filter_empty_conv split: option.splits)
  show ?thesis
    unfolding k [symmetric]
    by (simp add: buildClientConfig_result exhausted_def)
qed

text \<open>
  One half of the property holds of the code: when neither the agent nor the identity
  file nor any default key yields a signer, the result is the exhaustion error.
\<close>

lemma buildClientConfig_fails_when_nothing_yields:
  assumes "agent_keys w = []" and "key_signer w (Identity host) = None"
    and "\<forall>keyPath \<in> set defaultKeys. key_signer w keyPath = None"
  shows "buildClientConfig w host = (None, Some (ErrString ''no authentication method available''))"
proof -
  have "snd (buildClientConfig w host) \<noteq> None"
    unfolding buildClientConfig_fails_iff using assms by simp
  then show ?thesis
    by (simp add: buildClientConfig_result exhausted_def split: if_splits)
qed

text \<open>
  Claim C2. Auth resolution reports exhaustion if and only if no credential source, the
  agent, the identity file or some default key path, yields a usable signer. The comment
  on \<open>buildClientConfig\<close> states the same three steps (agent first, then key file, then
  default keys), but the third step is not reached for a host with an identity file.
  The code evaluated where it departs from the claim: there is no agent, the identity
  file \<open>/missing\<close> cannot be read, and the default key \<open>~/.ssh/id_ecdsa\<close> reads and
  parses, so that \<open>addDefaultKeysAuth\<close> on the same configuration would have returned a
  signer; \<open>buildClientConfig\<close> reports exhaustion all the same.
\<close>

theorem exhausted_despite_default_key:
  "agent_keys keys_world = []
   \<and> key_signer keys_world ''/missing'' = None
   \<and> ''~/.ssh/id_ecdsa'' \<in> set defaultKeys
   \<and> key_signer keys_world ''~/.ssh/id_ecdsa'' = Some ''ecdsa-signer''
   \<and> buildClientConfig keys_world (admin_host\<lparr>Identity := ''/missing''\<rparr>) =
       (None, Some (ErrString ''no authentication method available''))
   \<and> addDefaultKeysAuth keys_world (base_config (admin_host\<lparr>Identity := ''/missing''\<rparr>) []) =
       (base_config (admin_host\<lparr>Identity := ''/missing''\<rparr>) [PublicKeys [''ecdsa-signer'']], None)"
proof -
  have "addDefaultKeysAuth keys_world (base_config (admin_host\<lparr>Identity := ''/missing''\<rparr>) []) =
       (base_config (admin_host\<lparr>Identity := ''/missing''\<rparr>) [PublicKeys [''ecdsa-signer'']], None)"
    by (simp add: addDefaultKeysAuth_def Let_def defaultKeysLoop_eq keys_default_signers
        base_config_def)
  then show ?thesis
    by (simp add: buildClientConfig_result keys_agent_keys keys_file_signers keys_key_signer
      exhausted_def) (simp add: defaultKeys_def)
qed

text \<open>
  Claim C4, as the code has it. Whenever \<open>buildClientConfig\<close> fails, its error is the one
  fixed message \<open>no authentication method available\<close>: the errors of the single methods
  are dropped in the loop and nothing in the result says which methods were tried.
\<close>

theorem exhausted_error_is_one_fixed_message:
  "snd (buildClientConfig w host) = None
   \<or> buildClientConfig w host = (None, Some (ErrString ''no authentication method available''))"
  by (simp add: buildClientConfig_result exhausted_def)

text \<open>
  The claim as it is written fails: three failures with three different sets of attempted
  methods (agent and default keys; agent and an identity file; the same with a parsable
  default key left untried) return the same error value, which lists no method.
\<close>

theorem exhausted_error_names_no_method:
  "buildClientConfig bare_world admin_host =
     (None, Some (ErrString ''no authentication method available''))
   \<and> buildClientConfig bare_world (admin_host\<lparr>Identity := ''/missing''\<rparr>) =
     (None, Some (ErrString ''no authentication method available''))
   \<and> buildClientConfig keys_world (admin_host\<lparr>Identity := ''/missing''\<rparr>) =
     (None, Some (ErrString ''no authentication method available''))"
  by (simp add: buildClientConfig_result bare_agent_keys keys_agent_keys keys_file_signers
      exhausted_def)

section \<open>The dial address of a host with port zero\<close>

text \<open>
  Claim C3 says that a host whose port is 0 is dialled on port 22. The code formats the
  port it is given: with a server listening on \<open>203.0.113.5:22\<close>, the host with port 22
  connects, and the same host with port 0 is dialled as \<open>203.0.113.5:0\<close> by \<open>Connect\<close>,
  \<open>ConnectWithAuth\<close>, \<open>CheckConnection\<close> and \<open>Ping\<close>, and refused.
\<close>

theorem port_zero_dials_port_zero:
  "Connect sshd_world NewConnector admin_host =
     (\<lparr>c_client = Some 5,
       c_config = Some (base_config admin_host [PublicKeys [''agent-key'']])\<rparr>, None)
   \<and> Connect sshd_world NewConnector (admin_host\<lparr>Port := 0\<rparr>) =
     (NewConnector,
      Some (ErrWrap ''failed to connect to 203.0.113.5:0: '' (Some (ExtError ''connection refused''))))
   \<and> ConnectWithAuth sshd_world NewConnector (admin_host\<lparr>Port := 0\<rparr>) AuthMethodSSHAgent =
     (NewConnector,
      Some (ErrWrap ''failed to connect to 203.0.113.5:0: '' (Some (ExtError ''connection refused''))))
   \<and> CheckConnection sshd_world admin_host = None
   \<and> CheckConnection sshd_world (admin_host\<lparr>Port := 0\<rparr>) =
      Some (ErrWrap ''cannot reach 203.0.113.5:0: '' (Some (ExtError ''connection refused'')))
   \<and> Ping sshd_world ''203.0.113.5'' 22 = None
   \<and> Ping sshd_world ''203.0.113.5'' 0 = Some (ExtError ''connection refused'')"
proof -
  have 1: "Connect sshd_world NewConnector admin_host =
     (\<lparr>c_client = Some 5,
       c_config = Some (base_config admin_host [PublicKeys [''agent-key'']])\<rparr>, None)"
    by (simp add: Connect_def buildClientConfig_result sshd_agent_keys Let_def admin_addr)
       (simp add: sshd_world_def agent_world_def bare_world_def NewConnector_def)
  have 2: "Connect sshd_world NewConnector (admin_host\<lparr>Port := 0\<rparr>) =
     (NewConnector,
      Some (ErrWrap ''failed to connect to 203.0.113.5:0: '' (Some (ExtError ''connection refused''))))"
    by (simp add: Connect_def buildClientConfig_result sshd_agent_keys Let_def admin_addr_zero)
       (simp add: sshd_world_def agent_world_def bare_world_def)
  have 3: "ConnectWithAuth sshd_world NewConnector (admin_host\<lparr>Port := 0\<rparr>) AuthMethodSSHAgent =
     (NewConnector,
      Some (ErrWrap ''failed to connect to 203.0.113.5:0: '' (Some (ExtError ''connection refused''))))"
    by (simp add: ConnectWithAuth_def with_agent_keys sshd_agent_keys Let_def admin_addr_zero)
       (simp add: sshd_world_def agent_world_def bare_world_def)
  have 4: "CheckConnection sshd_world admin_host = None"
    by (simp add: CheckConnection_def Let_def admin_addr)
       (simp add: sshd_world_def agent_world_def bare_world_def)
  have 5: "CheckConnection sshd_world (admin_host\<lparr>Port := 0\<rparr>) =
      Some (ErrWrap ''cannot reach 203.0.113.5:0: '' (Some (ExtError ''connection refused'')))"
    by (simp add: CheckConnection_def Let_def admin_addr_zero)
       (simp add: sshd_world_def agent_world_def bare_world_def)
  have 6: "Ping sshd_world ''203.0.113.5'' 22 = None"
    by (simp add: Ping_def Let_def Sprintf_addr_def Sprintf_d_def decimal.simps
        sshd_world_def agent_world_def bare_world_def)
  have 7: "Ping sshd_world ''203.0.113.5'' 0 = Some (ExtError ''connection refused'')"
    by (simp add: Ping_def Let_def Sprintf_addr_def Sprintf_d_def decimal.simps
        sshd_world_def agent_world_def bare_world_def)
  from 1 2 3 4 5 6 7 show ?thesis by blast
qed

section \<open>The errors of Connect\<close>



section \<open>The interactive session\<close>

text \<open>
  Claim C6, as the code has it. When \<open>Connect\<close>, \<open>NewSession\<close>, \<open>RequestPty\<close> (called with
  the height before the width) and \<open>Shell\<close> all succeed, \<open>ConnectAndInteract\<close> returns
  exactly what \<open>session.Wait()\<close> returns. Its only result is an \<open>error\<close>: nil stands for
  success, and an exit status other than zero comes back as the \<open>*ssh.ExitError\<close> that
  \<open>Wait\<close> made for it.
\<close>

theorem ConnectAndInteract_returns_Wait:
  assumes "Connect w NewConnector host = (connector, None)"
    and "NewSession w (c_client connector) = Inr session"
    and "RequestPty w session ''xterm'' (snd (getTerminalSize w)) (fst (getTerminalSize w)) modes = None"
    and "Shell w session = None"
  shows "ConnectAndInteract w host = Wait w session"
  using assms by (cases "getTerminalSize w") (simp add: ConnectAndInteract_def)

theorem ConnectAndInteract_returns_Wait_witness:
  "Connect shell_world NewConnector admin_host =
     (\<lparr>c_client = Some 5, c_config = Some (base_config admin_host [PublicKeys [''agent-key'']])\<rparr>, None)
   \<and> NewSession shell_world (Some 5) = Inr 9
   \<and> RequestPty shell_world 9 ''xterm'' 40 100 modes = None
   \<and> Shell shell_world 9 = None
   \<and> ConnectAndInteract shell_world admin_host = Wait shell_world 9
   \<and> ConnectAndInteract (shell_world\<lparr>Wait := (\<lambda>s. None)\<rparr>) admin_host = None"
proof -
  note n = shell_session(1-3)
  have 1: "ConnectAndInteract shell_world admin_host = Wait shell_world 9"
    by (rule ConnectAndInteract_returns_Wait [OF shell_connect]) (simp_all add: n shell_size)
  let ?w = "shell_world\<lparr>Wait := (\<lambda>s. None)\<rparr>"
  have ak: "agent_keys ?w = [''agent-key'']"
    by (simp add: agent_keys_def shell_world_def agent_world_def bare_world_def)
  have c: "Connect ?w NewConnector admin_host =
     (\<lparr>c_client = Some 5, c_config = Some (base_config admin_host [PublicKeys [''agent-key'']])\<rparr>, None)"
    by (simp add: Connect_def buildClientConfig_result ak Let_def)
       (simp add: shell_world_def agent_world_def bare_world_def NewConnector_def)
  have s: "getTerminalSize ?w = (100, 40)"
    by (simp add: getTerminalSize_def getTerminalSizeImpl_def Let_def
      shell_world_def agent_world_def bare_world_def)
  have "ConnectAndInteract ?w admin_host = Wait ?w 9"
    by (rule ConnectAndInteract_returns_Wait [OF c])
       (simp_all add: s, simp_all add: shell_world_def agent_world_def bare_world_def)
  then have 2: "ConnectAndInteract ?w admin_host = None" by simp
  from 1 2 n shell_connect show ?thesis by simp
qed

text \<open>
  The claim as it is written fails: with a working agent, a terminal of 100 by 40 and a
  remote shell that runs \<open>exit 7\<close>, the driver returns the error \<open>ExitError 7\<close>, not a
  successful result.
\<close>

theorem exit_status_comes_back_as_error:
  "ConnectAndInteract shell_world admin_host = Some (ExitError 7)"
  by (simp add: ConnectAndInteract_def shell_connect shell_size shell_session)

end
